theory Spec2Isabelle
  imports Complex_Main "HOL-Library.Word"
begin

section \<open>The gas burner firmware (burner/src/main.cpp)\<close>

text \<open>
  The firmware keeps its whole state in file-scope variables; the model collects them in
  one record that every function takes and returns. \<open>unsigned long\<close> is 32 bits wide
  on the ESP32, so the \<open>millis()\<close> clock and the timers are 32-bit words: subtraction
  wraps around and comparison is unsigned, as in the source. \<open>float\<close> values are
  modelled as reals (rounding is not modelled). \<open>readingIndex\<close> and
  \<open>readingsCount\<close> are C \<open>int\<close>s that start at 0 and only ever hold values
  in 0..15, so they are natural numbers here.
\<close>

type_synonym millis = "32 word"

record device =
  co2Reading :: int
  humidityReading :: int
  carbonCredits :: real
  emissions :: real
  offset :: bool
  lastDataUpdate :: millis
  lastMqttPublish :: millis
  lastHeartbeat :: millis
  lastCriticalAlert :: millis
  co2Readings :: "int list"
  humidityReadings :: "int list"
  readingIndex :: nat
  readingsCount :: nat
  mqttConnected :: bool
  lastMqttAttempt :: millis
  availableCredits :: real
  creditsBurned :: real
  autoPurchaseEnabled :: bool

definition dataUpdateInterval :: millis where "dataUpdateInterval = 2000"
definition mqttPublishInterval :: millis where "mqttPublishInterval = 15000"
definition heartbeatInterval :: millis where "heartbeatInterval = 300000"
definition criticalAlertCooldown :: millis where "criticalAlertCooldown = 30000"
definition mqttRetryInterval :: millis where "mqttRetryInterval = 5000"
definition CRITICAL_CO2_THRESHOLD :: int where "CRITICAL_CO2_THRESHOLD = 2500"
definition CRITICAL_CREDITS_THRESHOLD :: real where "CRITICAL_CREDITS_THRESHOLD = 5.0"
definition CREDIT_PURCHASE_THRESHOLD :: real where "CREDIT_PURCHASE_THRESHOLD = 10.0"
definition CREDIT_PURCHASE_AMOUNT :: real where "CREDIT_PURCHASE_AMOUNT = 100.0"

text \<open>The values of the globals at power-on (the arrays are zero-initialised).\<close>

definition boot :: device where
  "boot = \<lparr>co2Reading = 0, humidityReading = 0, carbonCredits = 0, emissions = 0,
     offset = False, lastDataUpdate = 0, lastMqttPublish = 0, lastHeartbeat = 0,
     lastCriticalAlert = 0, co2Readings = replicate 15 0,
     humidityReadings = replicate 15 0, readingIndex = 0, readingsCount = 0,
     mqttConnected = False, lastMqttAttempt = 0, availableCredits = 50.0,
     creditsBurned = 0.0, autoPurchaseEnabled = True\<rparr>"

subsection \<open>Sampling: generateHighGasEmissionData\<close>

text \<open>
  The body of the \<open>if\<close> (lines 293-314). \<open>rndCo2\<close> and \<open>rndHumidity\<close> are what
  the two calls of \<open>random\<close> return (800..3000 and 40..90 in this firmware). The reading
  is written at \<open>readingIndex\<close>, the index advances modulo 15 and the count grows up
  to 15.
\<close>

definition takeReading :: "millis \<Rightarrow> int \<Rightarrow> int \<Rightarrow> device \<Rightarrow> device" where
  "takeReading currentTime rndCo2 rndHumidity s =
     s\<lparr>lastDataUpdate := currentTime,
       co2Reading := rndCo2,
       humidityReading := rndHumidity,
       co2Readings := (co2Readings s)[readingIndex s := rndCo2],
       humidityReadings := (humidityReadings s)[readingIndex s := rndHumidity],
       readingIndex := (readingIndex s + 1) mod 15,
       readingsCount := (if readingsCount s < 15 then readingsCount s + 1 else readingsCount s),
       carbonCredits := real_of_int rndCo2 * 0.8,
       emissions := real_of_int rndHumidity * 0.3,
       offset := (availableCredits s \<ge> real_of_int rndCo2 * 0.8)\<rparr>"

text \<open>The whole function; \<open>currentTime\<close> is the value of \<open>millis()\<close>.\<close>

definition generateHighGasEmissionData :: "millis \<Rightarrow> int \<Rightarrow> int \<Rightarrow> device \<Rightarrow> device" where
  "generateHighGasEmissionData currentTime rndCo2 rndHumidity s =
     (if currentTime - lastDataUpdate s \<ge> dataUpdateInterval
      then takeReading currentTime rndCo2 rndHumidity s else s)"

text \<open>A run of readings \<open>(time, co2, humidity)\<close>, each one taken and stored.\<close>

fun takeReadings :: "(millis \<times> int \<times> int) list \<Rightarrow> device \<Rightarrow> device" where
  "takeReadings [] s = s"
| "takeReadings ((t, c, h) # rs) s = takeReadings rs (takeReading t c h s)"

subsection \<open>Aggregation and publishing: publishAggregatedDataToMqtt\<close>

text \<open>The locals of the statistics loop (lines 143-145).\<close>

record stats =
  avgCO2 :: real
  avgHumidity :: real
  maxCO2 :: int
  minCO2 :: int
  maxHumidity :: int
  minHumidity :: int

definition stats0 :: stats where
  "stats0 = \<lparr>avgCO2 = 0, avgHumidity = 0, maxCO2 = 0, minCO2 = 9999,
     maxHumidity = 0, minHumidity = 9999\<rparr>"

text \<open>One iteration of the loop body (lines 148-153) at index \<open>i\<close>.\<close>

definition accumulate :: "device \<Rightarrow> nat \<Rightarrow> stats \<Rightarrow> stats" where
  "accumulate s i a =
     \<lparr>avgCO2 = avgCO2 a + real_of_int (co2Readings s ! i),
      avgHumidity = avgHumidity a + real_of_int (humidityReadings s ! i),
      maxCO2 = max (maxCO2 a) (co2Readings s ! i),
      minCO2 = min (minCO2 a) (co2Readings s ! i),
      maxHumidity = max (maxHumidity a) (humidityReadings s ! i),
      minHumidity = min (minHumidity a) (humidityReadings s ! i)\<rparr>"

text \<open>
  Lines 147-157: \<open>for (int i = 0; i < readingsCount; i++)\<close>, then the two divisions.
  The loop reads the slots \<open>0 .. readingsCount - 1\<close> of the arrays.
\<close>

definition statistics :: "device \<Rightarrow> stats" where
  "statistics s =
     (let a = fold (accumulate s) [0 ..< readingsCount s] stats0
      in a\<lparr>avgCO2 := avgCO2 a / real (readingsCount s),
           avgHumidity := avgHumidity a / real (readingsCount s)\<rparr>)"

text \<open>
  The JSON payload (lines 165-169), without the fields that come from the network stack
  and the clock (\<open>ip\<close>, \<open>mac\<close>, \<open>t\<close>) and the constant \<open>type\<close>. The JSON keys
  \<open>e\<close> and \<open>o\<close> are spelled out.
\<close>

record sensor_data =
  avg_c :: real
  max_c :: int
  min_c :: int
  avg_h :: real
  max_h :: int
  min_h :: int
  cr :: real
  e_emissions :: real
  o_offset :: bool
  samples :: nat
  credits_avail :: real

definition sensorDataPayload :: "device \<Rightarrow> sensor_data" where
  "sensorDataPayload s =
     (let a = statistics s
      in \<lparr>avg_c = avgCO2 a, max_c = maxCO2 a, min_c = minCO2 a,
          avg_h = avgHumidity a, max_h = maxHumidity a, min_h = minHumidity a,
          cr = carbonCredits s, e_emissions = emissions s, o_offset = offset s,
          samples = readingsCount s, credits_avail = availableCredits s\<rparr>)"

text \<open>
  The MQTT client is outside the program: a call of the firmware is given what
  \<open>mqttClient.connected()\<close> answers and what \<open>mqttClient.publish\<close> returns on each
  topic.
\<close>

datatype topic = SensorData | Alerts | AlertsSimple | Heartbeat | HeartbeatSimple

record net =
  clientConnected :: bool
  publishResult :: "topic \<Rightarrow> bool"

text \<open>
  What one call did. \<open>AggPublished p\<close>: \<open>publish\<close> was called with payload \<open>p\<close> and
  returned true; \<open>AggPublishFailed p\<close>: it was called and returned false; the other three
  are the early returns, where \<open>publish\<close> is not called.
\<close>

datatype agg_outcome =
  AggNotConnected | AggNoReadings | AggPayloadTooLarge
  | AggPublished sensor_data | AggPublishFailed sensor_data

text \<open>
  \<open>payloadLen\<close> is the value \<open>snprintf\<close> returns. The source compares it with
  \<open>sizeof(payload) - 1\<close>, an unsigned 599, so a negative value takes the same branch.
\<close>

definition publishAggregatedDataToMqtt :: "net \<Rightarrow> int \<Rightarrow> device \<Rightarrow> agg_outcome \<times> device" where
  "publishAggregatedDataToMqtt n payloadLen s =
     (if \<not> clientConnected n \<or> \<not> mqttConnected s then (AggNotConnected, s)
      else if readingsCount s = 0 then (AggNoReadings, s)
      else if payloadLen < 0 \<or> payloadLen \<ge> 599 then (AggPayloadTooLarge, s)
      else if publishResult n SensorData
        then (AggPublished (sensorDataPayload s), s\<lparr>readingsCount := 0\<rparr>)
        else (AggPublishFailed (sensorDataPayload s), s))"

subsection \<open>Alerts and heartbeat\<close>

text \<open>The alert payload; its JSON keys \<open>co2\<close> and \<open>credits\<close> carry a prefix here.\<close>

record alert =
  alert_type :: string
  message :: string
  alert_co2 :: int
  alert_credits :: real

datatype alert_outcome = AlertNotConnected | AlertSent topic alert | AlertFailed alert

text \<open>
  sendCriticalAlert (lines 197-238): no global is written. The payload is published on
  the alerts topic, and on the simple topic when that fails.
\<close>

definition sendCriticalAlert :: "net \<Rightarrow> string \<Rightarrow> string \<Rightarrow> device \<Rightarrow> alert_outcome" where
  "sendCriticalAlert n alertType msg s =
     (let p = \<lparr>alert_type = alertType, message = msg, alert_co2 = co2Reading s,
                alert_credits = availableCredits s\<rparr>
      in if \<not> clientConnected n then AlertNotConnected
         else if publishResult n Alerts then AlertSent Alerts p
         else if publishResult n AlertsSimple then AlertSent AlertsSimple p
         else AlertFailed p)"

datatype heartbeat_outcome = HeartbeatNotConnected | HeartbeatSent topic | HeartbeatFailed

definition sendHeartbeat :: "net \<Rightarrow> heartbeat_outcome" where
  "sendHeartbeat n =
     (if \<not> clientConnected n then HeartbeatNotConnected
      else if publishResult n Heartbeat then HeartbeatSent Heartbeat
      else if publishResult n HeartbeatSimple then HeartbeatSent HeartbeatSimple
      else HeartbeatFailed)"

subsection \<open>The credit ledger: autoPurchaseCredits and burnCreditsForOffset\<close>

text \<open>
  autoPurchaseCredits (lines 365-373) returns nothing; the flag of the model says whether
  it announced a purchase on the serial line.
\<close>

definition autoPurchaseCredits :: "device \<Rightarrow> bool \<times> device" where
  "autoPurchaseCredits s =
     (if autoPurchaseEnabled s \<and> availableCredits s < CREDIT_PURCHASE_THRESHOLD
      then (True, s\<lparr>availableCredits := availableCredits s + CREDIT_PURCHASE_AMOUNT\<rparr>)
      else (False, s))"

text \<open>burnCreditsForOffset (lines 378-395).\<close>

definition burnCreditsForOffset :: "device \<Rightarrow> device" where
  "burnCreditsForOffset s =
     (if co2Reading s > 1000 \<and> availableCredits s > 0 then
        let creditsToBurn0 = real_of_int (co2Reading s - 1000) * 0.001;
            creditsToBurn = (if creditsToBurn0 > availableCredits s
                             then availableCredits s else creditsToBurn0)
        in if creditsToBurn > 0.01
           then s\<lparr>availableCredits := availableCredits s - creditsToBurn,
                  creditsBurned := creditsBurned s + creditsToBurn\<rparr>
           else s
      else s)"

subsection \<open>The main loop\<close>

text \<open>connectToMqtt (lines 92-118).\<close>

definition connectToMqtt :: "bool \<Rightarrow> bool \<Rightarrow> device \<Rightarrow> bool \<times> device" where
  "connectToMqtt connectedNow connectOk s =
     (if connectedNow then (True, s)
      else if connectOk then (True, s\<lparr>mqttConnected := True\<rparr>)
      else (False, s\<lparr>mqttConnected := False\<rparr>))"

text \<open>
  What one iteration of \<open>loop\<close> reads from outside: the clock at its three calls of
  \<open>millis()\<close>, the random numbers, the answers of the MQTT client at each place it is
  asked, and the length of the formatted aggregate payload.
\<close>

record env =
  connAtLoop :: bool
  tReconnect :: millis
  connAtConnect :: bool
  connectOk :: bool
  tGenerate :: millis
  rndCo2 :: int
  rndHumidity :: int
  tNow :: millis
  netPublish :: net
  payloadLen :: int
  netAlert :: net
  netHeartbeat :: net

text \<open>Lines 459-474.\<close>

definition handleConnection :: "env \<Rightarrow> device \<Rightarrow> device" where
  "handleConnection e s =
     (if \<not> connAtLoop e then
        let s1 = s\<lparr>mqttConnected := False\<rparr>
        in if tReconnect e - lastMqttAttempt s1 \<ge> mqttRetryInterval
           then snd (connectToMqtt (connAtConnect e) (connectOk e)
                      (s1\<lparr>lastMqttAttempt := tReconnect e\<rparr>))
           else s1
      else if \<not> mqttConnected s then s\<lparr>mqttConnected := True\<rparr> else s)"

text \<open>Lines 492-495: the aggregate publish, every 15 seconds.\<close>

definition aggregateStep :: "millis \<Rightarrow> net \<Rightarrow> int \<Rightarrow> device \<Rightarrow> agg_outcome option \<times> device" where
  "aggregateStep currentTime n len s =
     (if currentTime - lastMqttPublish s \<ge> mqttPublishInterval then
        let (r, s1) = publishAggregatedDataToMqtt n len s
        in (Some r, s1\<lparr>lastMqttPublish := currentTime\<rparr>)
      else (None, s))"

text \<open>Lines 498-506: the critical alerts, with their cooldown.\<close>

definition alertStep :: "millis \<Rightarrow> net \<Rightarrow> device \<Rightarrow> alert_outcome option \<times> device" where
  "alertStep currentTime n s =
     (if currentTime - lastCriticalAlert s \<ge> criticalAlertCooldown then
        if co2Reading s > CRITICAL_CO2_THRESHOLD then
          (Some (sendCriticalAlert n ''HIGH_CO2'' ''Dangerous CO2 levels detected!'' s),
           s\<lparr>lastCriticalAlert := currentTime\<rparr>)
        else if availableCredits s < CRITICAL_CREDITS_THRESHOLD then
          (Some (sendCriticalAlert n ''LOW_CREDITS'' ''Critical low carbon credits!'' s),
           s\<lparr>lastCriticalAlert := currentTime\<rparr>)
        else (None, s)
      else (None, s))"

text \<open>Lines 509-512: the heartbeat, every 5 minutes.\<close>

definition heartbeatStep :: "millis \<Rightarrow> net \<Rightarrow> device \<Rightarrow> heartbeat_outcome option \<times> device" where
  "heartbeatStep currentTime n s =
     (if currentTime - lastHeartbeat s \<ge> heartbeatInterval
      then (Some (sendHeartbeat n), s\<lparr>lastHeartbeat := currentTime\<rparr>)
      else (None, s))"

text \<open>
  One iteration of \<open>loop\<close> (lines 457-515); the display and the final \<open>delay\<close> change
  no global. The result lists what the three transmission steps did.
\<close>

definition loop :: "env \<Rightarrow> device \<Rightarrow> (agg_outcome option \<times> alert_outcome option \<times> heartbeat_outcome option) \<times> device" where
  "loop e s =
     (let s1 = handleConnection e s;
          s2 = generateHighGasEmissionData (tGenerate e) (rndCo2 e) (rndHumidity e) s1;
          s3 = snd (autoPurchaseCredits s2);
          s4 = burnCreditsForOffset s3;
          currentTime = tNow e;
          (a, s5) = aggregateStep currentTime (netPublish e) (payloadLen e) s4;
          (b, s6) = alertStep currentTime (netAlert e) s5;
          (c, s7) = heartbeatStep currentTime (netHeartbeat e) s6
      in ((a, b, c), s7))"


text \<open>The states the firmware can be in: power-on, then any number of iterations.\<close>

inductive reachable :: "device \<Rightarrow> bool" where
  reachable_boot: "reachable boot"
| reachable_loop: "reachable s \<Longrightarrow> reachable (snd (loop e s))"

text \<open>
  The bounds that keep every access to the two arrays inside them.
\<close>

definition windowInv :: "device \<Rightarrow> bool" where
  "windowInv s \<longleftrightarrow> readingsCount s \<le> 15 \<and> readingIndex s < 15 \<and>
     length (co2Readings s) = 15 \<and> length (humidityReadings s) = 15"



subsection \<open>The alert scheduler in the specification's words\<close>










section \<open>The burner simulation (iot/burner/carbon-credit-burner.ino)\<close>

text \<open>
  The globals of the sketch that the ledger functions use. The sketch has its own
  \<open>availableCredits\<close>; the field carries a suffix here to keep it apart from the
  firmware's.
\<close>

record burner =
  co2Emission :: real
  energyConsumed :: real
  isActive :: bool
  autoBurnEnabled :: bool
  totalCreditsBurned :: real
  currentSessionCreditsBurned :: real
  availableCredits_ino :: real

definition CREDIT_BURN_RATE :: real where "CREDIT_BURN_RATE = 0.001"

text \<open>
  burnCarbonCredits (lines 262-295). The first component is the amount handed to
  \<open>sendCreditBurnDataToBackend\<close>, when the function gets that far.
\<close>

definition burnCarbonCredits :: "burner \<Rightarrow> real option \<times> burner" where
  "burnCarbonCredits s =
     (if isActive s \<and> co2Emission s > 0 \<and> availableCredits_ino s > 0 then
        let creditsToBurn0 = co2Emission s * CREDIT_BURN_RATE;
            creditsToBurn = (if creditsToBurn0 > availableCredits_ino s
                             then availableCredits_ino s else creditsToBurn0)
        in if creditsToBurn > 0.01
           then (Some creditsToBurn,
                 s\<lparr>availableCredits_ino := availableCredits_ino s - creditsToBurn,
                   currentSessionCreditsBurned := currentSessionCreditsBurned s + creditsToBurn,
                   totalCreditsBurned := totalCreditsBurned s + creditsToBurn\<rparr>)
           else (None, s)
      else (None, s))"

text \<open>addCredits (lines 376-379) and its only caller, emergencyCreditPurchase.\<close>

definition addCredits :: "real \<Rightarrow> burner \<Rightarrow> burner" where
  "addCredits credits s = s\<lparr>availableCredits_ino := availableCredits_ino s + credits\<rparr>"

definition emergencyCreditPurchase :: "burner \<Rightarrow> burner" where
  "emergencyCreditPurchase s = addCredits 50.0 s"

section \<open>Concrete inputs\<close>

text \<open>The firmware after power-on, with the broker connection up.\<close>

definition bootOnline :: device where
  "bootOnline = boot\<lparr>mqttConnected := True\<rparr>"

text \<open>A broker that accepts every publish, one that rejects every publish, and none.\<close>

definition okNet :: net where
  "okNet = \<lparr>clientConnected = True, publishResult = (\<lambda>_. True)\<rparr>"

definition failNet :: net where
  "failNet = \<lparr>clientConnected = True, publishResult = (\<lambda>_. False)\<rparr>"

definition downNet :: net where
  "downNet = \<lparr>clientConnected = False, publishResult = (\<lambda>_. False)\<rparr>"

text \<open>Five readings, two seconds apart.\<close>

definition fiveReadings :: "(millis \<times> int \<times> int) list" where
  "fiveReadings =
     [(2000, 801, 41), (4000, 802, 42), (6000, 803, 43), (8000, 804, 44), (10000, 805, 45)]"

text \<open>Twenty readings with the CO2 values 1..20, two seconds apart.\<close>

definition twentyReadings :: "(millis \<times> int \<times> int) list" where
  "twentyReadings =
     [(2000, 1, 41), (4000, 2, 42), (6000, 3, 43), (8000, 4, 44), (10000, 5, 45),
      (12000, 6, 46), (14000, 7, 47), (16000, 8, 48), (18000, 9, 49), (20000, 10, 50),
      (22000, 11, 51), (24000, 12, 52), (26000, 13, 53), (28000, 14, 54), (30000, 15, 55),
      (32000, 16, 56), (34000, 17, 57), (36000, 18, 58), (38000, 19, 59), (40000, 20, 60)]"


text \<open>Ledger states: five credits left and a request of eight; just below the purchase
  threshold.\<close>

definition fiveCredits :: device where
  "fiveCredits = bootOnline\<lparr>co2Reading := 9000, availableCredits := 5.0\<rparr>"

definition lowCredits :: device where
  "lowCredits = bootOnline\<lparr>availableCredits := 9.5\<rparr>"

text \<open>A reading above the CO2 threshold, with plenty of credits and with too few.\<close>

definition highCo2 :: device where
  "highCo2 = bootOnline\<lparr>co2Reading := 2600, availableCredits := 20\<rparr>"

definition highCo2LowCredits :: device where
  "highCo2LowCredits = bootOnline\<lparr>co2Reading := 2600, availableCredits := 3\<rparr>"


text \<open>The sketch's ledger at start-up, and with five credits left during an active phase
  that asks for eight.\<close>

definition sketchBoot :: burner where
  "sketchBoot = \<lparr>co2Emission = 0, energyConsumed = 0, isActive = False,
     autoBurnEnabled = True, totalCreditsBurned = 0, currentSessionCreditsBurned = 0,
     availableCredits_ino = 100.0\<rparr>"

definition sketchFiveCredits :: burner where
  "sketchFiveCredits =
     sketchBoot\<lparr>co2Emission := 8000, isActive := True, availableCredits_ino := 5.0\<rparr>"

section \<open>The aggregation window\<close>

lemma readingsCount_takeReading:
  "readingsCount (takeReading t c h s) =
     (if readingsCount s < 15 then readingsCount s + 1 else readingsCount s)"
  by (simp add: takeReading_def)

lemma readingsCount_takeReadings:
  "readingsCount s \<le> 15 \<Longrightarrow>
     readingsCount (takeReadings rs s) = min (readingsCount s + length rs) 15"
proof (induction rs arbitrary: s)
  case Nil
  then show ?case by simp
next
  case (Cons r rs)
  obtain t c h where r: "r = (t, c, h)" by (cases r)
  have le: "readingsCount (takeReading t c h s) \<le> 15"
    using Cons.prems by (simp add: readingsCount_takeReading)
  show ?case
    using Cons.IH [OF le] Cons.prems by (simp add: r readingsCount_takeReading)
qed

lemma samples_sensorDataPayload: "samples (sensorDataPayload s) = readingsCount s"
  by (simp add: sensorDataPayload_def Let_def)

lemma windowInv_boot: "windowInv boot"
  by (simp add: windowInv_def boot_def)

lemma windowInv_handleConnection: "windowInv s \<Longrightarrow> windowInv (handleConnection e s)"
  by (simp add: windowInv_def handleConnection_def connectToMqtt_def Let_def)

lemma windowInv_generate:
  "windowInv s \<Longrightarrow> windowInv (generateHighGasEmissionData t c h s)"
  by (simp add: windowInv_def generateHighGasEmissionData_def takeReading_def)

lemma windowInv_autoPurchase: "windowInv s \<Longrightarrow> windowInv (snd (autoPurchaseCredits s))"
  by (simp add: windowInv_def autoPurchaseCredits_def)

lemma windowInv_burn: "windowInv s \<Longrightarrow> windowInv (burnCreditsForOffset s)"
  by (simp add: windowInv_def burnCreditsForOffset_def Let_def)

lemma windowInv_publish:
  "windowInv s \<Longrightarrow> windowInv (snd (publishAggregatedDataToMqtt n len s))"
  by (simp add: windowInv_def publishAggregatedDataToMqtt_def)

lemma snd_aggregateStep:
  "snd (aggregateStep t n len s) =
     (if t - lastMqttPublish s \<ge> mqttPublishInterval
      then (snd (publishAggregatedDataToMqtt n len s))\<lparr>lastMqttPublish := t\<rparr> else s)"
  by (simp add: aggregateStep_def case_prod_beta)

lemma windowInv_aggregateStep: "windowInv s \<Longrightarrow> windowInv (snd (aggregateStep t n len s))"
  using windowInv_publish [of s n len]
  by (simp add: snd_aggregateStep windowInv_def)

lemma windowInv_alertStep: "windowInv s \<Longrightarrow> windowInv (snd (alertStep t n s))"
  by (simp add: windowInv_def alertStep_def)

lemma windowInv_heartbeatStep: "windowInv s \<Longrightarrow> windowInv (snd (heartbeatStep t n s))"
  by (simp add: windowInv_def heartbeatStep_def)

text \<open>The state after an iteration, as the composition of its seven steps.\<close>

lemma snd_loop:
  "snd (loop e s) =
     snd (heartbeatStep (tNow e) (netHeartbeat e)
       (snd (alertStep (tNow e) (netAlert e)
         (snd (aggregateStep (tNow e) (netPublish e) (payloadLen e)
           (burnCreditsForOffset (snd (autoPurchaseCredits
             (generateHighGasEmissionData (tGenerate e) (rndCo2 e) (rndHumidity e)
               (handleConnection e s))))))))))"
  by (simp add: loop_def Let_def case_prod_beta)

lemma windowInv_loop: "windowInv s \<Longrightarrow> windowInv (snd (loop e s))"
  unfolding snd_loop
  by (intro windowInv_heartbeatStep windowInv_alertStep windowInv_aggregateStep
      windowInv_burn windowInv_autoPurchase windowInv_generate windowInv_handleConnection)

text \<open>
  In every state the firmware reaches, the count is at most 15, the write index is
  below 15 and both arrays have their 15 slots: the statistics loop and the store of a
  reading never leave the arrays.
\<close>

lemma reachable_windowInv: "reachable s \<Longrightarrow> windowInv s"
  by (induction rule: reachable.induct) (simp_all add: windowInv_boot windowInv_loop)

text \<open>
  C4. The sample count of the aggregate payload is the number of readings taken since
  the count was last 0, capped at the capacity 15: in every reachable state the count is
  at most 15, and from a state with count \<open>k \<le> 15\<close> any run of readings \<open>rs\<close> leaves
  the count, and the \<open>samples\<close> field of the payload, at \<open>min (k + length rs) 15\<close>
  (one reading adds one up to the cap; from \<open>k = 0\<close> this is \<open>min (length rs) 15\<close>).
  The payload is built and sent only when the count is not 0.
\<close>

theorem sample_count_min_pushes_capacity:
  "(reachable s \<longrightarrow> readingsCount s \<le> 15) \<and>
   (readingsCount s \<le> 15 \<longrightarrow>
      readingsCount (takeReadings rs s) = min (readingsCount s + length rs) 15 \<and>
      samples (sensorDataPayload (takeReadings rs s)) = min (readingsCount s + length rs) 15)"
proof -
  have "reachable s \<Longrightarrow> readingsCount s \<le> 15"
    using reachable_windowInv [of s] by (simp add: windowInv_def)
  then show ?thesis
    by (simp add: samples_sensorDataPayload readingsCount_takeReadings)
qed

theorem sample_count_min_pushes_capacity_witness:
  "reachable boot \<and> readingsCount boot = 0 \<and>
   readingsCount (takeReadings twentyReadings boot) = 15 \<and>
   samples (sensorDataPayload (takeReadings twentyReadings boot)) = 15 \<and>
   readingsCount (takeReadings fiveReadings boot) = 5"
  using sample_count_min_pushes_capacity [of boot twentyReadings]
    sample_count_min_pushes_capacity [of boot fiveReadings] reachable_boot
  by (simp add: boot_def twentyReadings_def fiveReadings_def)

text \<open>
  The scenario of twenty readings with the CO2 values 1..20 from power-on: the five
  oldest are overwritten, and the statistics are those of 6..20.
\<close>

lemma window_after_twenty_readings:
  "co2Readings (takeReadings twentyReadings boot) =
     [16, 17, 18, 19, 20, 6, 7, 8, 9, 10, 11, 12, 13, 14, 15] \<and>
   readingsCount (takeReadings twentyReadings boot) = 15 \<and>
   statistics (takeReadings twentyReadings boot) =
     \<lparr>avgCO2 = 13, avgHumidity = 53, maxCO2 = 20, minCO2 = 6,
      maxHumidity = 60, minHumidity = 46\<rparr>"
  by code_simp

text \<open>
  C3. The statistics loop reads the slots \<open>0 .. readingsCount - 1\<close>, while a successful
  publish resets \<open>readingsCount\<close> and leaves \<open>readingIndex\<close> where it was. After five
  readings (CO2 801..805) and a successful publish, the next reading (CO2 3000,
  humidity 90) is stored in slot 5 and the count is 1; the following publish reads
  slot 0 and reports average, maximum and minimum CO2 801 and humidity 41 for the one
  sample: the values of the oldest reading of the window already published, not of the
  reading taken since.
\<close>

theorem stale_slots_after_reset:
  "(let s1 = takeReadings fiveReadings bootOnline;
        (r1, s2) = publishAggregatedDataToMqtt okNet 200 s1;
        s3 = takeReading 12000 3000 90 s2;
        (r2, s4) = publishAggregatedDataToMqtt okNet 200 s3
    in (readingsCount s1, r1, readingsCount s2, readingsCount s3, co2Readings s3, r2)) =
   (5,
    AggPublished \<lparr>avg_c = 803, max_c = 805, min_c = 801, avg_h = 43, max_h = 45,
      min_h = 41, cr = 644, e_emissions = 27 / 2, o_offset = False, samples = 5,
      credits_avail = 50\<rparr>,
    0, 1, [801, 802, 803, 804, 805, 3000, 0, 0, 0, 0, 0, 0, 0, 0, 0],
    AggPublished \<lparr>avg_c = 801, max_c = 801, min_c = 801, avg_h = 41, max_h = 41,
      min_h = 41, cr = 2400, e_emissions = 27, o_offset = False, samples = 1,
      credits_avail = 50\<rparr>)"
  by code_simp

text \<open>
  The last three components again, read off the run: one reading since the reset, stored
  in slot 5, and a payload built from slot 0.
\<close>

theorem stale_slots_after_reset_witness:
  "readingsCount (takeReading 12000 3000 90
     (snd (publishAggregatedDataToMqtt okNet 200 (takeReadings fiveReadings bootOnline)))) = 1 \<and>
   co2Readings (takeReading 12000 3000 90
     (snd (publishAggregatedDataToMqtt okNet 200 (takeReadings fiveReadings bootOnline)))) =
     [801, 802, 803, 804, 805, 3000, 0, 0, 0, 0, 0, 0, 0, 0, 0] \<and>
   fst (publishAggregatedDataToMqtt okNet 200 (takeReading 12000 3000 90
     (snd (publishAggregatedDataToMqtt okNet 200 (takeReadings fiveReadings bootOnline))))) =
     AggPublished \<lparr>avg_c = 801, max_c = 801, min_c = 801, avg_h = 41, max_h = 41,
       min_h = 41, cr = 2400, e_emissions = 27, o_offset = False, samples = 1,
       credits_avail = 50\<rparr>"
  using stale_slots_after_reset
  by (simp add: Let_def case_prod_beta)

section \<open>Publishing the aggregate\<close>

text \<open>
  C1. From a state with \<open>readingsCount = k > 0\<close>, publishAggregatedDataToMqtt resets
  the count exactly when \<open>publish\<close> was called and returned true. When the client is
  disconnected, the connection flag is down or \<open>publish\<close> returns false, the whole
  state is returned as it was (the count stays \<open>k\<close>); when the client is connected, the
  payload fits its buffer and \<open>publish\<close> returns true, the count becomes 0. The two
  arrays are never written, whatever the outcome.
\<close>

theorem window_reset_iff_publish_succeeds:
  "0 < readingsCount s \<Longrightarrow>
     (\<not> clientConnected n \<or> \<not> mqttConnected s \<or> \<not> publishResult n SensorData \<longrightarrow>
        snd (publishAggregatedDataToMqtt n len s) = s) \<and>
     (clientConnected n \<and> mqttConnected s \<and> 0 \<le> len \<and> len < 599 \<and>
      publishResult n SensorData \<longrightarrow>
        publishAggregatedDataToMqtt n len s =
          (AggPublished (sensorDataPayload s), s\<lparr>readingsCount := 0\<rparr>)) \<and>
     (readingsCount (snd (publishAggregatedDataToMqtt n len s)) = 0 \<longleftrightarrow>
        fst (publishAggregatedDataToMqtt n len s) = AggPublished (sensorDataPayload s)) \<and>
     (fst (publishAggregatedDataToMqtt n len s) \<noteq> AggPublished (sensorDataPayload s) \<longrightarrow>
        snd (publishAggregatedDataToMqtt n len s) = s) \<and>
     co2Readings (snd (publishAggregatedDataToMqtt n len s)) = co2Readings s \<and>
     humidityReadings (snd (publishAggregatedDataToMqtt n len s)) = humidityReadings s"
  by (simp add: publishAggregatedDataToMqtt_def)

text \<open>
  Five readings, a publish that fails (or a broker that is down), then one that
  succeeds: the count is 5, stays 5, and is 0 after the success.
\<close>

theorem window_reset_iff_publish_succeeds_witness:
  "0 < readingsCount (takeReadings fiveReadings bootOnline) \<and>
   readingsCount (takeReadings fiveReadings bootOnline) = 5 \<and>
   readingsCount (snd (publishAggregatedDataToMqtt failNet 200
     (takeReadings fiveReadings bootOnline))) = 5 \<and>
   readingsCount (snd (publishAggregatedDataToMqtt downNet 200
     (takeReadings fiveReadings bootOnline))) = 5 \<and>
   readingsCount (snd (publishAggregatedDataToMqtt okNet 200
     (snd (publishAggregatedDataToMqtt failNet 200
       (takeReadings fiveReadings bootOnline))))) = 0"
proof -
  have k: "readingsCount (takeReadings fiveReadings bootOnline) = 5"
    by code_simp
  have m: "mqttConnected (takeReadings fiveReadings bootOnline)"
    by code_simp
  have pos: "0 < readingsCount (takeReadings fiveReadings bootOnline)"
    by (simp add: k)
  have nets: "\<not> publishResult failNet SensorData" "\<not> clientConnected downNet"
    "clientConnected okNet" "publishResult okNet SensorData"
    by (simp_all add: failNet_def downNet_def okNet_def)
  have same: "snd (publishAggregatedDataToMqtt failNet 200
      (takeReadings fiveReadings bootOnline)) = takeReadings fiveReadings bootOnline"
    using window_reset_iff_publish_succeeds [OF pos, of failNet 200] nets by blast
  show ?thesis
    using k m nets same
      window_reset_iff_publish_succeeds [OF pos, of downNet 200]
      window_reset_iff_publish_succeeds [OF pos, of okNet 200]
    by simp
qed

text \<open>
  C7, as stated, fails at the scheduler's step: with an empty window the step of
  \<open>loop\<close> (lines 492-495) dispatches nothing and resets nothing, but it sets
  \<open>lastMqttPublish\<close> to the current time. At power-on with the broker up and the clock
  at 15000 the step returns a state that differs from the one it was given.
\<close>

theorem empty_window_step_counterexample:
  "readingsCount bootOnline = 0 \<and>
   aggregateStep 15000 okNet 200 bootOnline =
     (Some AggNoReadings, bootOnline\<lparr>lastMqttPublish := 15000\<rparr>) \<and>
   lastMqttPublish bootOnline = 0 \<and>
   snd (aggregateStep 15000 okNet 200 bootOnline) \<noteq> bootOnline"
proof -
  have a: "aggregateStep 15000 okNet 200 bootOnline =
     (Some AggNoReadings, bootOnline\<lparr>lastMqttPublish := 15000\<rparr>)"
    by (simp add: aggregateStep_def publishAggregatedDataToMqtt_def mqttPublishInterval_def
        okNet_def bootOnline_def boot_def)
  have "lastMqttPublish (snd (aggregateStep 15000 okNet 200 bootOnline)) \<noteq>
      lastMqttPublish bootOnline"
    by (simp add: a) (simp add: bootOnline_def boot_def)
  then have "snd (aggregateStep 15000 okNet 200 bootOnline) \<noteq> bootOnline"
    by auto
  then show ?thesis
    using a by (simp add: bootOnline_def boot_def)
qed

text \<open>
  C7, amended. With an empty window publishAggregatedDataToMqtt returns early: it does not
  call \<open>publish\<close>, resets nothing and writes no global (its outcome is the
  not-connected return when the connection is down, the no-readings return otherwise).
  The scheduler's step around it, when the interval has elapsed, changes the state in
  one field only: \<open>lastMqttPublish\<close> becomes the current time. Before the interval has
  elapsed the step does nothing at all.
\<close>

theorem empty_window_skips_publish:
  "readingsCount s = 0 \<Longrightarrow>
     publishAggregatedDataToMqtt n len s =
       (if \<not> clientConnected n \<or> \<not> mqttConnected s then AggNotConnected else AggNoReadings, s) \<and>
     (t - lastMqttPublish s \<ge> mqttPublishInterval \<longrightarrow>
        snd (aggregateStep t n len s) = s\<lparr>lastMqttPublish := t\<rparr> \<and>
        (fst (aggregateStep t n len s) = Some AggNotConnected \<or>
         fst (aggregateStep t n len s) = Some AggNoReadings)) \<and>
     (t - lastMqttPublish s < mqttPublishInterval \<longrightarrow> aggregateStep t n len s = (None, s))"
  by (auto simp add: aggregateStep_def publishAggregatedDataToMqtt_def)

theorem empty_window_skips_publish_witness:
  "readingsCount bootOnline = 0 \<and>
   publishAggregatedDataToMqtt okNet 200 bootOnline = (AggNoReadings, bootOnline) \<and>
   15000 - lastMqttPublish bootOnline \<ge> mqttPublishInterval \<and>
   snd (aggregateStep 15000 okNet 200 bootOnline) = bootOnline\<lparr>lastMqttPublish := 15000\<rparr> \<and>
   14999 - lastMqttPublish bootOnline < mqttPublishInterval \<and>
   aggregateStep 14999 okNet 200 bootOnline = (None, bootOnline)"
proof -
  have z: "readingsCount bootOnline = 0"
    by (simp add: bootOnline_def boot_def)
  have g: "15000 - lastMqttPublish bootOnline \<ge> mqttPublishInterval"
    "14999 - lastMqttPublish bootOnline < mqttPublishInterval"
    by (simp_all add: bootOnline_def boot_def mqttPublishInterval_def)
  have c: "clientConnected okNet" "mqttConnected bootOnline"
    by (simp_all add: okNet_def bootOnline_def)
  show ?thesis
    using z g c empty_window_skips_publish [OF z, of okNet 200 15000]
      empty_window_skips_publish [OF z, of okNet 200 14999]
    by simp
qed

section \<open>The credit ledger\<close>

text \<open>
  C2. The amount requested by burnCreditsForOffset is
  \<open>x = (co2Reading - 1000) * 0.001\<close>; the amount burned is \<open>min x available\<close> when
  that exceeds 0.01 and 0 otherwise. The function subtracts it from
  \<open>availableCredits\<close>, adds it to \<open>creditsBurned\<close>, never burns more than is
  available, and leaves a non-negative balance non-negative, for every state and so for
  every \<open>x\<close>. The sketch's burnCarbonCredits does the same with
  \<open>x = co2Emission * CREDIT_BURN_RATE\<close> on its three counters while the device is
  active (it burns nothing while it is not).
\<close>

theorem burn_clamped_to_available:
  "(let x = real_of_int (co2Reading s - 1000) * 0.001;
        actual_burned =
          (if min x (availableCredits s) > 0.01 then min x (availableCredits s) else 0);
        s' = burnCreditsForOffset s
    in availableCredits s' = availableCredits s - actual_burned \<and>
       creditsBurned s' = creditsBurned s + actual_burned \<and>
       actual_burned \<le> max 0 (availableCredits s) \<and>
       (0 \<le> availableCredits s \<longrightarrow> 0 \<le> availableCredits s')) \<and>
   (isActive b \<longrightarrow>
     (let x = co2Emission b * CREDIT_BURN_RATE;
          actual_burned =
            (if min x (availableCredits_ino b) > 0.01 then min x (availableCredits_ino b)
             else 0);
          b' = snd (burnCarbonCredits b)
      in availableCredits_ino b' = availableCredits_ino b - actual_burned \<and>
         totalCreditsBurned b' = totalCreditsBurned b + actual_burned \<and>
         currentSessionCreditsBurned b' = currentSessionCreditsBurned b + actual_burned \<and>
         (0 \<le> availableCredits_ino b \<longrightarrow> 0 \<le> availableCredits_ino b')))"
  by (auto simp add: burnCreditsForOffset_def burnCarbonCredits_def CREDIT_BURN_RATE_def
      Let_def min_def max_def)

text \<open>Five credits available and eight requested: five are burned and none is left.\<close>

theorem burn_clamped_to_available_witness:
  "availableCredits fiveCredits = 5 \<and>
   real_of_int (co2Reading fiveCredits - 1000) * 0.001 = 8 \<and>
   availableCredits (burnCreditsForOffset fiveCredits) = 0 \<and>
   creditsBurned (burnCreditsForOffset fiveCredits) = creditsBurned fiveCredits + 5 \<and>
   isActive sketchFiveCredits \<and> availableCredits_ino sketchFiveCredits = 5 \<and>
   co2Emission sketchFiveCredits * CREDIT_BURN_RATE = 8 \<and>
   availableCredits_ino (snd (burnCarbonCredits sketchFiveCredits)) = 0 \<and>
   totalCreditsBurned (snd (burnCarbonCredits sketchFiveCredits)) =
     totalCreditsBurned sketchFiveCredits + 5"
  using burn_clamped_to_available [of fiveCredits sketchFiveCredits]
  by (simp add: fiveCredits_def sketchFiveCredits_def bootOnline_def boot_def sketchBoot_def
      CREDIT_BURN_RATE_def Let_def)

text \<open>
  C8, as stated, fails: addCredits has no check and no way to fail. Called with -1 on
  the start-up ledger of 100 credits it returns a ledger with 99.
\<close>

theorem addCredits_negative_counterexample:
  "availableCredits_ino sketchBoot = 100 \<and>
   availableCredits_ino (addCredits (- 1) sketchBoot) = 99 \<and>
   addCredits (- 1) sketchBoot \<noteq> sketchBoot"
proof -
  have "availableCredits_ino (addCredits (- 1) sketchBoot) = 99"
    by (simp add: addCredits_def sketchBoot_def)
  moreover have "availableCredits_ino sketchBoot = 100"
    by (simp add: sketchBoot_def)
  ultimately show ?thesis by auto
qed

text \<open>
  C8, amended. addCredits accepts every amount and never fails: it adds the amount to
  \<open>availableCredits\<close>, so a negative amount lowers the balance and only the amount 0
  leaves the ledger unchanged; the burn counters are not touched (the sketch keeps no
  counter of generated credits). Its only caller, emergencyCreditPurchase, adds 50.
\<close>

theorem addCredits_adds_any_amount:
  "availableCredits_ino (addCredits credits b) = availableCredits_ino b + credits \<and>
   totalCreditsBurned (addCredits credits b) = totalCreditsBurned b \<and>
   currentSessionCreditsBurned (addCredits credits b) = currentSessionCreditsBurned b \<and>
   (addCredits credits b = b \<longleftrightarrow> credits = 0) \<and>
   (credits < 0 \<longrightarrow> availableCredits_ino (addCredits credits b) < availableCredits_ino b) \<and>
   availableCredits_ino (emergencyCreditPurchase b) = availableCredits_ino b + 50"
proof -
  have "addCredits credits b = b \<longleftrightarrow> credits = 0"
  proof
    assume "addCredits credits b = b"
    then have "availableCredits_ino (addCredits credits b) = availableCredits_ino b"
      by simp
    then show "credits = 0" by (simp add: addCredits_def)
  next
    assume "credits = 0"
    then show "addCredits credits b = b" by (simp add: addCredits_def)
  qed
  then show ?thesis by (simp add: addCredits_def emergencyCreditPurchase_def)
qed

theorem addCredits_adds_any_amount_witness:
  "(- 1 :: real) < 0 \<and>
   availableCredits_ino (addCredits (- 1) sketchBoot) < availableCredits_ino sketchBoot \<and>
   availableCredits_ino (addCredits (- 1) sketchBoot) = 99 \<and>
   availableCredits_ino (addCredits 25 sketchBoot) = 125"
  using addCredits_adds_any_amount [of "- 1" sketchBoot]
    addCredits_adds_any_amount [of 25 sketchBoot]
  by (simp add: sketchBoot_def)

text \<open>
  C9. autoPurchaseCredits announces a purchase exactly when auto purchase is enabled and
  fewer than 10 credits are available; it then adds 100 to \<open>availableCredits\<close> and
  changes nothing else. Otherwise it announces nothing and returns the state as it was.
  One call adds 100 at most once.
\<close>

theorem autoPurchaseCredits_behaviour:
  "(fst (autoPurchaseCredits s) \<longleftrightarrow> autoPurchaseEnabled s \<and> availableCredits s < 10) \<and>
   (autoPurchaseEnabled s \<and> availableCredits s < 10 \<longrightarrow>
      snd (autoPurchaseCredits s) = s\<lparr>availableCredits := availableCredits s + 100\<rparr>) \<and>
   (\<not> (autoPurchaseEnabled s \<and> availableCredits s < 10) \<longrightarrow>
      snd (autoPurchaseCredits s) = s) \<and>
   (availableCredits (snd (autoPurchaseCredits s)) = availableCredits s \<or>
    availableCredits (snd (autoPurchaseCredits s)) = availableCredits s + 100)"
  by (simp add: autoPurchaseCredits_def CREDIT_PURCHASE_THRESHOLD_def
      CREDIT_PURCHASE_AMOUNT_def)

theorem autoPurchaseCredits_behaviour_witness:
  "autoPurchaseEnabled lowCredits \<and> availableCredits lowCredits < 10 \<and>
   fst (autoPurchaseCredits lowCredits) \<and>
   availableCredits (snd (autoPurchaseCredits lowCredits)) = 109.5 \<and>
   \<not> (autoPurchaseEnabled bootOnline \<and> availableCredits bootOnline < 10) \<and>
   \<not> fst (autoPurchaseCredits bootOnline) \<and>
   snd (autoPurchaseCredits bootOnline) = bootOnline \<and>
   \<not> fst (autoPurchaseCredits (lowCredits\<lparr>autoPurchaseEnabled := False\<rparr>)) \<and>
   snd (autoPurchaseCredits (lowCredits\<lparr>autoPurchaseEnabled := False\<rparr>)) =
     lowCredits\<lparr>autoPurchaseEnabled := False\<rparr>"
proof -
  have l: "autoPurchaseEnabled lowCredits \<and> availableCredits lowCredits < 10"
    by (simp add: lowCredits_def bootOnline_def boot_def)
  have b: "\<not> (autoPurchaseEnabled bootOnline \<and> availableCredits bootOnline < 10)"
    by (simp add: bootOnline_def boot_def)
  have d: "\<not> (autoPurchaseEnabled (lowCredits\<lparr>autoPurchaseEnabled := False\<rparr>) \<and>
     availableCredits (lowCredits\<lparr>autoPurchaseEnabled := False\<rparr>) < 10)"
    by simp
  have v: "availableCredits lowCredits + 100 = 109.5"
    by (simp add: lowCredits_def)
  show ?thesis
    using l b d v autoPurchaseCredits_behaviour [of lowCredits]
      autoPurchaseCredits_behaviour [of bootOnline]
      autoPurchaseCredits_behaviour [of "lowCredits\<lparr>autoPurchaseEnabled := False\<rparr>"]
    by simp
qed

section \<open>Alerts and their cooldown\<close>

































text \<open>
  C6. The alert step tests the CO2 reading first: once the cooldown has elapsed, a
  reading above \<open>CRITICAL_CO2_THRESHOLD\<close> (2500) makes it call sendCriticalAlert with
  HIGH_CO2, whatever the credit balance is, so also when the balance is below
  \<open>CRITICAL_CREDITS_THRESHOLD\<close>; with the client connected the payload that is
  published carries the type HIGH_CO2 and not LOW_CREDITS.
\<close>

theorem high_co2_takes_precedence:
  "t - lastCriticalAlert s \<ge> criticalAlertCooldown \<Longrightarrow>
   co2Reading s > CRITICAL_CO2_THRESHOLD \<Longrightarrow>
     fst (alertStep t n s) =
       Some (sendCriticalAlert n ''HIGH_CO2'' ''Dangerous CO2 levels detected!'' s) \<and>
     (clientConnected n \<longrightarrow>
        (\<exists>tp p. (fst (alertStep t n s) = Some (AlertSent tp p) \<or>
                 fst (alertStep t n s) = Some (AlertFailed p)) \<and>
                alert_type p = ''HIGH_CO2'' \<and> alert_type p \<noteq> ''LOW_CREDITS''))"
  by (simp add: alertStep_def sendCriticalAlert_def Let_def)

text \<open>
  A reading of 2600 with 3 credits (both conditions hold) and with 20 credits (the
  scenario of the specification): HIGH_CO2 both times.
\<close>

theorem high_co2_takes_precedence_witness:
  "30000 - lastCriticalAlert highCo2LowCredits \<ge> criticalAlertCooldown \<and>
   co2Reading highCo2LowCredits > CRITICAL_CO2_THRESHOLD \<and>
   availableCredits highCo2LowCredits < CRITICAL_CREDITS_THRESHOLD \<and>
   fst (alertStep 30000 okNet highCo2LowCredits) =
     Some (AlertSent Alerts \<lparr>alert_type = ''HIGH_CO2'',
       message = ''Dangerous CO2 levels detected!'', alert_co2 = 2600, alert_credits = 3\<rparr>) \<and>
   co2Reading highCo2 = 2600 \<and> availableCredits highCo2 = 20 \<and>
   fst (alertStep 30000 okNet highCo2) =
     Some (AlertSent Alerts \<lparr>alert_type = ''HIGH_CO2'',
       message = ''Dangerous CO2 levels detected!'', alert_co2 = 2600, alert_credits = 20\<rparr>)"
proof -
  have a: "30000 - lastCriticalAlert highCo2LowCredits \<ge> criticalAlertCooldown"
    "co2Reading highCo2LowCredits > CRITICAL_CO2_THRESHOLD"
    "availableCredits highCo2LowCredits < CRITICAL_CREDITS_THRESHOLD"
    by (simp_all add: highCo2LowCredits_def bootOnline_def boot_def criticalAlertCooldown_def
        CRITICAL_CO2_THRESHOLD_def CRITICAL_CREDITS_THRESHOLD_def)
  have b: "30000 - lastCriticalAlert highCo2 \<ge> criticalAlertCooldown"
    "co2Reading highCo2 > CRITICAL_CO2_THRESHOLD"
    by (simp_all add: highCo2_def bootOnline_def boot_def criticalAlertCooldown_def
        CRITICAL_CO2_THRESHOLD_def)
  show ?thesis
    using a high_co2_takes_precedence [OF a(1) a(2), of okNet]
      high_co2_takes_precedence [OF b(1) b(2), of okNet]
    by (simp add: sendCriticalAlert_def okNet_def highCo2_def highCo2LowCredits_def
        bootOnline_def boot_def)
qed

text \<open>
  C10. When the cooldown has elapsed and an alert condition holds, the alert step sets
  \<open>lastCriticalAlert\<close> to the current time and changes nothing else, whether the client
  is connected or not and whatever \<open>publish\<close> returns: with the client disconnected
  nothing is published, with both publishes failing the alert is lost. In each case any
  later alert step within the cooldown sends nothing, so the alert is not tried again
  before a full cooldown has passed.
\<close>

theorem alert_cooldown_consumed_undelivered:
  "t - lastCriticalAlert s \<ge> criticalAlertCooldown \<Longrightarrow>
   co2Reading s > CRITICAL_CO2_THRESHOLD \<or> availableCredits s < CRITICAL_CREDITS_THRESHOLD \<Longrightarrow>
     snd (alertStep t n s) = s\<lparr>lastCriticalAlert := t\<rparr> \<and>
     (\<not> clientConnected n \<longrightarrow> fst (alertStep t n s) = Some AlertNotConnected) \<and>
     (clientConnected n \<and> \<not> publishResult n Alerts \<and> \<not> publishResult n AlertsSimple \<longrightarrow>
        (\<exists>p. fst (alertStep t n s) = Some (AlertFailed p))) \<and>
     (\<forall>t' n'. t' - t < criticalAlertCooldown \<longrightarrow>
        alertStep t' n' (snd (alertStep t n s)) = (None, snd (alertStep t n s)))"
  by (auto simp add: alertStep_def sendCriticalAlert_def Let_def)

theorem alert_cooldown_consumed_undelivered_witness:
  "30000 - lastCriticalAlert highCo2 \<ge> criticalAlertCooldown \<and>
   co2Reading highCo2 > CRITICAL_CO2_THRESHOLD \<and>
   alertStep 30000 downNet highCo2 =
     (Some AlertNotConnected, highCo2\<lparr>lastCriticalAlert := 30000\<rparr>) \<and>
   fst (alertStep 30000 failNet highCo2) =
     Some (AlertFailed \<lparr>alert_type = ''HIGH_CO2'',
       message = ''Dangerous CO2 levels detected!'', alert_co2 = 2600, alert_credits = 20\<rparr>) \<and>
   lastCriticalAlert (snd (alertStep 30000 failNet highCo2)) = 30000 \<and>
   fst (alertStep 59999 okNet (snd (alertStep 30000 downNet highCo2))) = None"
proof -
  have a: "30000 - lastCriticalAlert highCo2 \<ge> criticalAlertCooldown"
    by (simp add: highCo2_def bootOnline_def boot_def criticalAlertCooldown_def)
  have b: "co2Reading highCo2 > CRITICAL_CO2_THRESHOLD \<or>
     availableCredits highCo2 < CRITICAL_CREDITS_THRESHOLD"
    by (simp add: highCo2_def CRITICAL_CO2_THRESHOLD_def)
  have c: "(59999 :: millis) - 30000 < criticalAlertCooldown"
    by (simp add: criticalAlertCooldown_def)
  have d: "\<not> clientConnected downNet"
    by (simp add: downNet_def)
  note down = alert_cooldown_consumed_undelivered [OF a b, of downNet]
  note fail = alert_cooldown_consumed_undelivered [OF a b, of failNet]
  have s1: "snd (alertStep 30000 downNet highCo2) = highCo2\<lparr>lastCriticalAlert := 30000\<rparr>"
    using down by blast
  have f1: "fst (alertStep 30000 downNet highCo2) = Some AlertNotConnected"
    using down d by blast
  have q1: "alertStep 59999 okNet (snd (alertStep 30000 downNet highCo2)) =
      (None, snd (alertStep 30000 downNet highCo2))"
    using down c by blast
  have s2: "snd (alertStep 30000 failNet highCo2) = highCo2\<lparr>lastCriticalAlert := 30000\<rparr>"
    using fail by blast
  have e: "fst (alertStep 30000 failNet highCo2) =
     Some (AlertFailed \<lparr>alert_type = ''HIGH_CO2'',
       message = ''Dangerous CO2 levels detected!'', alert_co2 = 2600, alert_credits = 20\<rparr>)"
    by (simp add: alertStep_def sendCriticalAlert_def failNet_def highCo2_def bootOnline_def
        boot_def criticalAlertCooldown_def CRITICAL_CO2_THRESHOLD_def)
  have b': "co2Reading highCo2 > CRITICAL_CO2_THRESHOLD"
    by (simp add: highCo2_def CRITICAL_CO2_THRESHOLD_def)
  show ?thesis
    using a b' s1 f1 q1 s2 e by (simp add: prod_eq_iff)
qed

end
